theory Spec2Isabelle
  imports Main "HOL-Library.AList"
begin

section \<open>Python values, headers, exceptions\<close>

text \<open>
  The values that travel through \<^verbatim>\<open>sanic_restplus/api.py\<close>: response data, bodies of
  error responses, attributes of exception objects and configuration entries. A Python
  dict is an association list in insertion order with distinct keys.
\<close>

datatype pyval = PNone | PBool bool | PInt int | PStr string | PDict "(string \<times> pyval) list"

fun truthy :: "pyval \<Rightarrow> bool" where
  "truthy PNone = False"
| "truthy (PBool b) = b"
| "truthy (PInt i) = (i \<noteq> 0)"
| "truthy (PStr s) = (s \<noteq> [])"
| "truthy (PDict d) = (d \<noteq> [])"

type_synonym headers = "(string \<times> string) list"

text \<open>
  An exception object, as far as the module looks at it: its exact class
  (\<^verbatim>\<open>e.__class__\<close>), the classes it inherits from (for \<^verbatim>\<open>isinstance\<close> and
  \<^verbatim>\<open>except\<close>), \<^verbatim>\<open>str(e)\<close>, and the attributes \<^verbatim>\<open>status_code\<close>,
  \<^verbatim>\<open>message\<close>, \<^verbatim>\<open>data\<close> and \<^verbatim>\<open>valid_methods\<close>, each of which may be absent.
\<close>

record exc =
  exc_cls :: string
  exc_bases :: "string list"
  exc_str :: string
  exc_status_code :: "int option"
  exc_message :: "pyval option"
  exc_data :: "pyval option"
  exc_valid_methods :: "string list option"

definition isinstance :: "exc \<Rightarrow> string \<Rightarrow> bool" where
  "isinstance e c = (c = exc_cls e \<or> c \<in> set (exc_bases e))"

text \<open>Sanic's exception classes used by the module, and the Python built-ins it can raise.\<close>

definition SanicException :: "string \<Rightarrow> int option \<Rightarrow> exc" where
  "SanicException msg code =
     \<lparr>exc_cls = ''SanicException'', exc_bases = [''Exception''], exc_str = msg,
      exc_status_code = code, exc_message = None, exc_data = None,
      exc_valid_methods = None\<rparr>"

definition ServerError :: "string \<Rightarrow> exc" where
  "ServerError msg =
     \<lparr>exc_cls = ''ServerError'', exc_bases = [''SanicException'', ''Exception''],
      exc_str = msg, exc_status_code = Some 500, exc_message = None, exc_data = None,
      exc_valid_methods = None\<rparr>"

definition InvalidUsage :: "string \<Rightarrow> int \<Rightarrow> exc" where
  "InvalidUsage msg code =
     \<lparr>exc_cls = ''InvalidUsage'', exc_bases = [''SanicException'', ''Exception''],
      exc_str = msg, exc_status_code = Some code, exc_message = None, exc_data = None,
      exc_valid_methods = None\<rparr>"

definition NotFound :: "string \<Rightarrow> exc" where
  "NotFound msg =
     \<lparr>exc_cls = ''NotFound'', exc_bases = [''SanicException'', ''Exception''],
      exc_str = msg, exc_status_code = Some 404, exc_message = None, exc_data = None,
      exc_valid_methods = None\<rparr>"

definition builtin_error :: "string \<Rightarrow> string \<Rightarrow> exc" where
  "builtin_error cls msg =
     \<lparr>exc_cls = cls, exc_bases = [''Exception''], exc_str = msg,
      exc_status_code = None, exc_message = None, exc_data = None,
      exc_valid_methods = None\<rparr>"

definition AttributeError :: "string \<Rightarrow> exc" where
  "AttributeError msg = builtin_error ''AttributeError'' msg"

definition NotImplementedError :: "string \<Rightarrow> exc" where
  "NotImplementedError msg = builtin_error ''NotImplementedError'' msg"

definition NameError :: "string \<Rightarrow> exc" where
  "NameError msg = builtin_error ''NameError'' msg"

definition StopIteration :: exc where
  "StopIteration = builtin_error ''StopIteration'' []"

definition UnboundLocalError :: "string \<Rightarrow> exc" where
  "UnboundLocalError msg =
     \<lparr>exc_cls = ''UnboundLocalError'', exc_bases = [''NameError'', ''Exception''],
      exc_str = msg, exc_status_code = None, exc_message = None, exc_data = None,
      exc_valid_methods = None\<rparr>"

section \<open>Requests, routes and responses of the host framework\<close>

text \<open>
  A route of Sanic's router (\<^verbatim>\<open>Route(handler, methods, pattern, parameters, name)\<close>).
  The compiled pattern is the predicate \<^verbatim>\<open>pattern.match(url) is not None\<close>; the
  method set is listed in its iteration order.
\<close>

record route =
  route_handler :: "string option"
  route_methods :: "string list"
  route_pattern :: "string \<Rightarrow> bool"
  route_name :: string

record router =
  routes_static :: "(string \<times> route) list"
  routes_dynamic :: "(nat \<times> route list) list"
  routes_always_check :: "route list"

record app =
  app_router :: router
  app_config :: "(string \<times> pyval) list"

text \<open>
  A request: method, path, the \<^verbatim>\<open>(media type, quality)\<close> pairs that
  \<^verbatim>\<open>get_accept_mimetypes(request)\<close> reads from its \<^verbatim>\<open>Accept\<close> header (quality in
  thousandths), and the application it belongs to (\<^verbatim>\<open>request.app\<close>, which a request
  built outside an application lacks).
\<close>

record request =
  req_method :: string
  req_path :: string
  req_accept_mimetypes :: "(string \<times> nat) list"
  req_app :: "app option"

text \<open>
  The body of an \<^verbatim>\<open>HTTPResponse\<close>: either the text \<^verbatim>\<open>str(data)\<close> of a Python value
  (left uninterpreted) or text that a representation produced itself.
\<close>

datatype content = Str_of pyval | Rendered string

record response =
  resp_status :: int
  resp_headers :: headers
  resp_body :: content

text \<open>
  \<^verbatim>\<open>sanic.response.text(body, status, headers)\<close> builds the response from its
  arguments.
\<close>

definition sanic_text :: "content \<Rightarrow> int \<Rightarrow> headers \<Rightarrow> response" where
  "sanic_text body status hdrs =
     \<lparr>resp_status = status, resp_headers = hdrs, resp_body = body\<rparr>"

section \<open>Return values of resources and handlers\<close>

text \<open>
  What a resource or an error handler returns before it is unpacked: a body, a body with
  a status code, or a body with a status code and headers.
\<close>

datatype raw = Body pyval | Body_code pyval int | Body_code_headers pyval int headers

text \<open>
  Modelled from the spec: \<^verbatim>\<open>unpack\<close> of \<^verbatim>\<open>sanic_restplus/utils.py\<close>, which is not
  among the sources. The spec's unpacking rule: the value may be \<^verbatim>\<open>(body)\<close>,
  \<^verbatim>\<open>(body, status)\<close> or \<^verbatim>\<open>(body, status, headers)\<close>; a missing status defaults
  to the default code (200 unless the caller passes another, as \<^verbatim>\<open>handle_error\<close>
  does with 500), missing headers default to empty.
\<close>

fun unpack :: "raw \<Rightarrow> int \<Rightarrow> pyval \<times> int \<times> headers" where
  "unpack (Body d) default_code = (d, default_code, [])"
| "unpack (Body_code d c) default_code = (d, c, [])"
| "unpack (Body_code_headers d c h) default_code = (d, c, h)"

type_synonym handler = "exc \<Rightarrow> exc + raw"

type_synonym renderer = "request \<Rightarrow> pyval \<Rightarrow> int \<Rightarrow> headers \<Rightarrow> exc + response"

section \<open>The Api object\<close>

text \<open>
  The attributes of an \<^verbatim>\<open>Api\<close> instance that negotiation, error handling and
  registration read or write. The endpoint set is a list without duplicates; the
  blueprint, when there is one, is represented by its name; \<^verbatim>\<open>has_app\<close> says that
  \<^verbatim>\<open>self.app\<close> is not \<^verbatim>\<open>None\<close>; a namespace is identified by a number, the default
  namespace of an instance being \<^verbatim>\<open>default_namespace\<close>.
\<close>

record namespace =
  ns_id :: nat
  ns_name :: string

record api =
  error_handlers :: "(string \<times> handler) list"
  default_error_handler :: "handler option"
  representations :: "(string \<times> renderer) list"
  default_mediatype :: "string option"
  catch_all_404s :: bool
  serve_challenge_on_401 :: bool
  endpoints :: "string list"
  resources :: "(string \<times> string list \<times> string) list"
  has_app :: bool
  blueprint :: "string option"
  default_namespace :: nat
  uid :: nat

section \<open>Content negotiation\<close>

text \<open>
  \<^verbatim>\<open>Api.mediatypes\<close>: the requested media types, sorted by descending quality.
  Python's \<^verbatim>\<open>sorted(..., reverse=True)\<close> keeps equal keys in their original order, as
  the insertion sort \<^const>\<open>sort_key\<close> on the negated quality does.
\<close>

definition mediatypes :: "request \<Rightarrow> string list" where
  "mediatypes req = map fst (sort_key (\<lambda>p. - int (snd p)) (req_accept_mimetypes req))"

definition main_type :: "string \<Rightarrow> string" where
  "main_type m = takeWhile (\<lambda>c. c \<noteq> CHR ''/'') m"

definition sub_type :: "string \<Rightarrow> string" where
  "sub_type m = drop 1 (dropWhile (\<lambda>c. c \<noteq> CHR ''/'') m)"

text \<open>
  Modelled from the spec: the matching step of \<^verbatim>\<open>best_match_accept_mimetype\<close> of
  \<^verbatim>\<open>sanic_restplus/utils.py\<close>, which is not among the sources. A client preference
  matches a registered media type when they are equal, or when the preference is a
  wildcard (\<^verbatim>\<open>*/*\<close>, or \<^verbatim>\<open>type/*\<close> with the same type).
\<close>

definition mimetype_matches :: "string \<Rightarrow> string \<Rightarrow> bool" where
  "mimetype_matches pref key =
     (pref = key \<or>
      (sub_type pref = ''*'' \<and> (main_type pref = ''*'' \<or> main_type pref = main_type key)))"

fun first_match :: "string list \<Rightarrow> string list \<Rightarrow> string option" where
  "first_match [] keys = None"
| "first_match (p # ps) keys =
     (case find (mimetype_matches p) keys of
        Some k \<Rightarrow> Some k
      | None \<Rightarrow> first_match ps keys)"

text \<open>
  Modelled from the spec: \<^verbatim>\<open>best_match_accept_mimetype(request, representations,
  default)\<close> of \<^verbatim>\<open>sanic_restplus/utils.py\<close>, which is not among the sources. The
  client's media types are tried in descending quality (ties in header order); the first
  registry key matching the first preference that matches anything wins; if no
  preference matches anything registered, the default is the answer.
\<close>

definition best_match_accept_mimetype ::
  "request \<Rightarrow> string list \<Rightarrow> string option \<Rightarrow> string option" where
  "best_match_accept_mimetype req keys dflt =
     (case first_match (mediatypes req) keys of
        Some k \<Rightarrow> Some k
      | None \<Rightarrow> dflt)"

text \<open>Python's \<^verbatim>\<open>a or b\<close> on optional strings: \<^verbatim>\<open>None\<close> and \<^verbatim>\<open>''\<close> are false.\<close>

definition py_or :: "string option \<Rightarrow> string option \<Rightarrow> string option" where
  "py_or a b = (case a of None \<Rightarrow> b | Some s \<Rightarrow> if s = [] then b else Some s)"

text \<open>
  \<^verbatim>\<open>Api.make_response(request, data, code, headers, fallback_mediatype=...)\<close>.
\<close>

definition make_response ::
  "api \<Rightarrow> request \<Rightarrow> pyval \<Rightarrow> int \<Rightarrow> headers \<Rightarrow> string option \<Rightarrow> exc + response" where
  "make_response a req data code hdrs fallback_mediatype =
     (let dflt = py_or fallback_mediatype (default_mediatype a);
          mediatype = best_match_accept_mimetype req (map fst (representations a)) dflt
      in case mediatype of
           None \<Rightarrow> Inl (SanicException ''Not Acceptable'' (Some 406))
         | Some m \<Rightarrow>
             (case map_of (representations a) m of
                Some f \<Rightarrow>
                  (case f req data code hdrs of
                     Inl err \<Rightarrow> Inl err
                   | Inr resp \<Rightarrow>
                       Inr (resp\<lparr>resp_headers :=
                              AList.update ''Content-Type'' m (resp_headers resp)\<rparr>))
              | None \<Rightarrow>
                  if m = ''text/plain''
                  then Inr ((sanic_text (Str_of data) code hdrs)
                              \<lparr>resp_headers := AList.update ''Content-Type'' ''text/plain'' hdrs\<rparr>)
                  else Inl (ServerError ''None'')))"

section \<open>Construction of an Api\<close>

text \<open>
  The two built-in handlers at the end of the module, for the mask errors of the toolkit.
\<close>

definition mask_parse_error_handler :: handler where
  "mask_parse_error_handler error =
     Inr (Body_code (PDict [(''message'', PStr (''Mask parse error: '' @ exc_str error))]) 400)"

definition mask_error_handler :: handler where
  "mask_error_handler error =
     Inr (Body_code (PDict [(''message'', PStr (''Mask error: '' @ exc_str error))]) 400)"

text \<open>
  \<^verbatim>\<open>Api.__init__\<close> without an application (\<^verbatim>\<open>app=None\<close>), restricted to the
  attributes that negotiation and error handling read. The class attribute
  \<^verbatim>\<open>Api.uid_counter\<close> is passed in and returned incremented. The JSON representation
  \<^verbatim>\<open>output_json\<close> of \<^verbatim>\<open>sanic_restplus/representations.py\<close> is not among the
  sources and is a parameter.
\<close>

definition Api_init ::
  "nat \<Rightarrow> renderer \<Rightarrow> string option \<Rightarrow> bool \<Rightarrow> bool \<Rightarrow> api \<times> nat" where
  "Api_init uid_counter output_json default_mediatype_arg catch_all_404s_arg
      serve_challenge_on_401_arg =
     (\<lparr>error_handlers = [(''ParseError'', mask_parse_error_handler),
                          (''MaskError'', mask_error_handler)],
       default_error_handler = None,
       representations = [(''application/json'', output_json)],
       default_mediatype = default_mediatype_arg,
       catch_all_404s = catch_all_404s_arg,
       serve_challenge_on_401 = serve_challenge_on_401_arg,
       endpoints = [],
       resources = [],
       has_app = False,
       blueprint = None,
       default_namespace = 0,
       uid = uid_counter + 1\<rparr>,
      uid_counter + 1)"

text \<open>
  \<^verbatim>\<open>Api.representation(mediatype)(func)\<close> and \<^verbatim>\<open>Api.errorhandler\<close>: assignment into
  the ordered registry keeps the place of a key that is already there and appends a new
  one; the decorator without an exception class sets the default handler.
\<close>

definition representation :: "string \<Rightarrow> renderer \<Rightarrow> api \<Rightarrow> api" where
  "representation mediatype func a =
     a\<lparr>representations := AList.update mediatype func (representations a)\<rparr>"

definition errorhandler :: "string option \<Rightarrow> handler \<Rightarrow> api \<Rightarrow> api" where
  "errorhandler exception func a =
     (case exception of
        Some cls \<Rightarrow> a\<lparr>error_handlers := AList.update cls func (error_handlers a)\<rparr>
      | None \<Rightarrow> a\<lparr>default_error_handler := Some func\<rparr>)"

text \<open>
  A representation used in examples: it renders the data as text with the given status
  and headers, like the built-in plain-text branch of \<^verbatim>\<open>make_response\<close>.
\<close>

definition example_renderer :: renderer where
  "example_renderer req data code hdrs = Inr (sanic_text (Str_of data) code hdrs)"

section \<open>Resolution of an error to a body, a status code and headers\<close>

text \<open>
  The reason phrases of \<^verbatim>\<open>sanic.response\<close>, already decoded from bytes:
  \<^verbatim>\<open>COMMON_STATUS_CODES\<close> and the entries of \<^verbatim>\<open>ALL_STATUS_CODES\<close>.
\<close>

definition COMMON_STATUS_CODES :: "(int \<times> string) list" where
  "COMMON_STATUS_CODES =
     [(200, ''OK''), (400, ''Bad Request''), (404, ''Not Found''),
      (500, ''Internal Server Error'')]"

definition ALL_STATUS_CODES :: "(int \<times> string) list" where
  "ALL_STATUS_CODES =
     [(100, ''Continue''), (101, ''Switching Protocols''), (102, ''Processing''),
      (200, ''OK''), (201, ''Created''), (202, ''Accepted''),
      (203, ''Non-Authoritative Information''), (204, ''No Content''),
      (205, ''Reset Content''), (206, ''Partial Content''), (207, ''Multi-Status''),
      (208, ''Already Reported''), (226, ''IM Used''),
      (300, ''Multiple Choices''), (301, ''Moved Permanently''), (302, ''Found''),
      (303, ''See Other''), (304, ''Not Modified''), (305, ''Use Proxy''),
      (307, ''Temporary Redirect''), (308, ''Permanent Redirect''),
      (400, ''Bad Request''), (401, ''Unauthorized''), (402, ''Payment Required''),
      (403, ''Forbidden''), (404, ''Not Found''), (405, ''Method Not Allowed''),
      (406, ''Not Acceptable''), (407, ''Proxy Authentication Required''),
      (408, ''Request Timeout''), (409, ''Conflict''), (410, ''Gone''),
      (411, ''Length Required''), (412, ''Precondition Failed''),
      (413, ''Request Entity Too Large''), (414, ''Request-URI Too Long''),
      (415, ''Unsupported Media Type''), (416, ''Requested Range Not Satisfiable''),
      (417, ''Expectation Failed''), (422, ''Unprocessable Entity''), (423, ''Locked''),
      (424, ''Failed Dependency''), (426, ''Upgrade Required''),
      (428, ''Precondition Required''), (429, ''Too Many Requests''),
      (431, ''Request Header Fields Too Large''),
      (500, ''Internal Server Error''), (501, ''Not Implemented''),
      (502, ''Bad Gateway''), (503, ''Service Unavailable''), (504, ''Gateway Timeout''),
      (505, ''HTTP Version Not Supported''), (506, ''Variant Also Negotiates''),
      (507, ''Insufficient Storage''), (508, ''Loop Detected''), (510, ''Not Extended''),
      (511, ''Network Authentication Required'')]"

text \<open>
  The reason phrase that the second branch of \<^verbatim>\<open>handle_error\<close> looks up:
  \<^verbatim>\<open>COMMON_STATUS_CODES.get(code)\<close>, then \<^verbatim>\<open>ALL_STATUS_CODES.get(code)\<close>.
\<close>

definition status_phrase :: "int \<Rightarrow> string option" where
  "status_phrase code =
     (case map_of COMMON_STATUS_CODES code of
        Some s \<Rightarrow> Some s
      | None \<Rightarrow> map_of ALL_STATUS_CODES code)"

text \<open>
  The \<^verbatim>\<open>if/elif/elif/else\<close> chain at the head of \<^verbatim>\<open>Api.handle_error\<close>: it
  yields \<^verbatim>\<open>default_data\<close>, \<^verbatim>\<open>code\<close> and \<^verbatim>\<open>headers\<close>, or the exception that a
  handler raised. An instance of \<^verbatim>\<open>SanicException\<close> without a \<^verbatim>\<open>status_code\<close>
  attribute makes \<^verbatim>\<open>e.status_code\<close> raise \<^verbatim>\<open>AttributeError\<close>.
\<close>

definition resolve_error :: "api \<Rightarrow> exc \<Rightarrow> exc + (pyval \<times> int \<times> headers)" where
  "resolve_error a e =
     (case map_of (error_handlers a) (exc_cls e) of
        Some handler \<Rightarrow>
          (case handler e of
             Inl err \<Rightarrow> Inl err
           | Inr result \<Rightarrow> Inr (unpack result 500))
      | None \<Rightarrow>
          if isinstance e ''SanicException'' then
            (case exc_status_code e of
               None \<Rightarrow> Inl (AttributeError ''status_code'')
             | Some code \<Rightarrow>
                 Inr (PDict [(''message'',
                        (case exc_message e of
                           Some m \<Rightarrow> m
                         | None \<Rightarrow>
                             (case status_phrase code of
                                Some s \<Rightarrow> PStr s
                              | None \<Rightarrow> PNone)))],
                      code, []))
          else
            (case default_error_handler a of
               Some handler \<Rightarrow>
                 (case handler e of
                    Inl err \<Rightarrow> Inl err
                  | Inr result \<Rightarrow> Inr (unpack result 500))
             | None \<Rightarrow>
                 Inr (PDict [(''message'',
                        PStr (case map_of COMMON_STATUS_CODES 500 of
                                Some s \<Rightarrow> s
                              | None \<Rightarrow> exc_str e))],
                      500, [])))"

section \<open>Rendering the error response\<close>

definition HEADERS_BLACKLIST :: "string list" where
  "HEADERS_BLACKLIST = [''Content-Length'']"

text \<open>
  \<^verbatim>\<open>Api._help_on_404\<close> starts by raising \<^verbatim>\<open>NotImplementedError\<close>; the rest of its
  body is never reached.
\<close>

definition help_on_404 :: "request \<Rightarrow> pyval \<Rightarrow> exc + pyval" where
  "help_on_404 req message =
     Inl (NotImplementedError ''Help on 404 is not yet implemented for Sanic-RestPlus'')"

text \<open>
  \<^verbatim>\<open>Api.unauthorized\<close>: with the challenge enabled it reads \<^verbatim>\<open>current_app\<close>, a name
  the module neither defines nor imports.
\<close>

definition unauthorized :: "api \<Rightarrow> response \<Rightarrow> exc + response" where
  "unauthorized a resp =
     (if serve_challenge_on_401 a
      then Inl (NameError ''name 'current_app' is not defined'')
      else Inr resp)"

text \<open>
  The tail of \<^verbatim>\<open>Api.handle_error\<close>: the blacklisted headers are popped, the
  response is made, and a 401 goes through \<^verbatim>\<open>unauthorized\<close>.
\<close>

definition render_error ::
  "api \<Rightarrow> request \<Rightarrow> pyval \<Rightarrow> int \<Rightarrow> headers \<Rightarrow> string option \<Rightarrow> exc + response" where
  "render_error a req data code hdrs fallback_mediatype =
     (case make_response a req data code (fold AList.delete HEADERS_BLACKLIST hdrs)
             fallback_mediatype of
        Inl err \<Rightarrow> Inl err
      | Inr resp \<Rightarrow> if code = 401 then unauthorized a resp else Inr resp)"

text \<open>\<^verbatim>\<open>app.config.get("ERROR_404_HELP", True)\<close>, as a condition.\<close>

definition error_404_help :: "app \<Rightarrow> bool" where
  "error_404_help ap =
     (case map_of (app_config ap) ''ERROR_404_HELP'' of
        None \<Rightarrow> True
      | Some v \<Rightarrow> truthy v)"

text \<open>
  The media type that \<^verbatim>\<open>handle_error\<close> passes as \<^verbatim>\<open>fallback_mediatype\<close> in its
  406 branch: \<^verbatim>\<open>supported_mediatypes[0] if supported_mediatypes else "text/plain"\<close>.
\<close>

definition first_supported_mediatype :: "api \<Rightarrow> string" where
  "first_supported_mediatype a =
     (case map fst (representations a) of
        [] \<Rightarrow> ''text/plain''
      | m # _ \<Rightarrow> m)"

text \<open>
  \<^verbatim>\<open>Api.handle_error(request, e)\<close>. \<^verbatim>\<open>default_data.get\<close> and \<^verbatim>\<open>data.get\<close>
  raise \<^verbatim>\<open>AttributeError\<close> on a value that is not a dict.
\<close>

definition handle_error :: "api \<Rightarrow> request \<Rightarrow> exc \<Rightarrow> exc + response" where
  "handle_error a req e =
     (case req_app req of
        None \<Rightarrow> Inl (AttributeError ''app'')
      | Some ap \<Rightarrow>
          (case resolve_error a e of
             Inl err \<Rightarrow> Inl err
           | Inr (default_data, code, hdrs) \<Rightarrow>
               (case default_data of
                  PDict d \<Rightarrow>
                    (let default_data' =
                           PDict (AList.update ''message''
                                    (case map_of d ''message'' of
                                       Some v \<Rightarrow> v
                                     | None \<Rightarrow> PStr (exc_str e)) d);
                         data = (case exc_data e of Some v \<Rightarrow> v | None \<Rightarrow> default_data')
                     in if code \<ge> 500 then render_error a req data code hdrs None
                        else if code = 404 \<and> error_404_help ap then
                          (case data of
                             PDict dd \<Rightarrow>
                               (case help_on_404 req
                                       (case map_of dd ''message'' of
                                          Some v \<Rightarrow> v
                                        | None \<Rightarrow> PNone) of
                                  Inl err \<Rightarrow> Inl err
                                | Inr m \<Rightarrow>
                                    render_error a req
                                      (PDict (AList.update ''message'' m dd)) code hdrs None)
                           | _ \<Rightarrow> Inl (AttributeError ''get''))
                        else if code = 406 \<and> default_mediatype a = None then
                          render_error a req data code hdrs
                            (Some (first_supported_mediatype a))
                        else render_error a req data code hdrs None)
                | _ \<Rightarrow> Inl (AttributeError ''get''))))"

section \<open>Endpoint ownership\<close>

text \<open>
  \<^verbatim>\<open>endpoint.split(sep, 1)[-1]\<close> for a non-empty separator: the text after the first
  occurrence of the separator, or the whole string when it does not occur.
\<close>

fun after_first :: "string \<Rightarrow> string \<Rightarrow> string option" where
  "after_first sep [] = None"
| "after_first sep (c # cs) =
     (if take (length sep) (c # cs) = sep then Some (drop (length sep) (c # cs))
      else after_first sep cs)"

definition split1_last :: "string \<Rightarrow> string \<Rightarrow> string" where
  "split1_last sep s = (case after_first sep s of Some r \<Rightarrow> r | None \<Rightarrow> s)"

definition startswith :: "string \<Rightarrow> string \<Rightarrow> bool" where
  "startswith s p = (take (length p) s = p)"

text \<open>\<^verbatim>\<open>Api.owns_endpoint(endpoint)\<close>.\<close>

definition owns_endpoint :: "api \<Rightarrow> string \<Rightarrow> bool" where
  "owns_endpoint a endpoint =
     (case blueprint a of
        Some bp_name \<Rightarrow>
          if startswith endpoint bp_name
          then split1_last (bp_name @ ''.'') endpoint \<in> set (endpoints a)
          else False
      | None \<Rightarrow> endpoint \<in> set (endpoints a))"

section \<open>Probing the router\<close>

text \<open>\<^verbatim>\<open>sanic.router.url_hash\<close> counts the slashes of the URL.\<close>

definition url_hash :: "string \<Rightarrow> nat" where
  "url_hash url = length (filter (\<lambda>c. c = CHR ''/'') url)"

text \<open>
  One \<^verbatim>\<open>for route in ...\<close> loop of \<^verbatim>\<open>_dummy_router_get\<close>: it either breaks at a
  route that matches the URL and allows the method, or runs to its end; \<^verbatim>\<open>route_found\<close>
  and the loop variable \<^verbatim>\<open>route\<close> live on after the loop.
\<close>

datatype scan = Broke route | Exhausted bool "route option"

fun scan_routes :: "route list \<Rightarrow> string \<Rightarrow> string \<Rightarrow> bool \<Rightarrow> route option \<Rightarrow> scan" where
  "scan_routes [] url method route_found cur = Exhausted route_found cur"
| "scan_routes (r # rs) url method route_found cur =
     (if route_pattern r url \<and> method \<in> set (route_methods r) then Broke r
      else scan_routes rs url method (route_found \<or> route_pattern r url) (Some r))"

definition method_not_supported :: "string \<Rightarrow> string \<Rightarrow> string list \<Rightarrow> exc" where
  "method_not_supported method url valid =
     (InvalidUsage (''Method '' @ method @ '' not allowed for URL '' @ url) 405)
       \<lparr>exc_valid_methods := Some valid\<rparr>"

text \<open>
  \<^verbatim>\<open>Api._dummy_router_get(router, method, request)\<close>. When both loops run to their
  end and a route was found, the error reports the methods of the route the loop
  variable holds last.
\<close>

definition dummy_router_get :: "router \<Rightarrow> string \<Rightarrow> request \<Rightarrow> exc + route" where
  "dummy_router_get rt method req =
     (let url = req_path req
      in case map_of (routes_static rt) url of
           Some r \<Rightarrow>
             if route_methods r \<noteq> [] \<and> method \<notin> set (route_methods r)
             then Inl (method_not_supported method url (route_methods r))
             else Inr r
         | None \<Rightarrow>
             (case scan_routes
                     (case map_of (routes_dynamic rt) (url_hash url) of
                        None \<Rightarrow> []
                      | Some rs \<Rightarrow> rs)
                     url method False None of
                Broke r \<Rightarrow> Inr r
              | Exhausted route_found cur \<Rightarrow>
                  (case scan_routes (routes_always_check rt) url method route_found cur of
                     Broke r \<Rightarrow> Inr r
                   | Exhausted route_found' cur' \<Rightarrow>
                       if route_found' then
                         (case cur' of
                            Some r \<Rightarrow>
                              Inl (method_not_supported method url (route_methods r))
                          | None \<Rightarrow> Inl (AttributeError ''methods''))
                       else Inl (NotFound (''Requested URL '' @ url @ '' not found'')))))"

text \<open>
  The method with which \<^verbatim>\<open>_should_use_fr_error_handler\<close> probes the router again
  after an \<^verbatim>\<open>InvalidUsage\<close>: \<^verbatim>\<open>next(iter(e.valid_methods))\<close>, and only when the
  attribute is missing \<^verbatim>\<open>POST\<close> for a \<^verbatim>\<open>GET\<close> request and \<^verbatim>\<open>GET\<close> otherwise.
  \<^verbatim>\<open>next\<close> on an empty set raises \<^verbatim>\<open>StopIteration\<close>, which is not caught.
\<close>

definition try_route_method :: "exc \<Rightarrow> request \<Rightarrow> exc + string" where
  "try_route_method e req =
     (case exc_valid_methods e of
        Some (m # _) \<Rightarrow> Inr m
      | Some [] \<Rightarrow> Inl StopIteration
      | None \<Rightarrow> Inr (if req_method req = ''GET'' then ''POST'' else ''GET''))"

text \<open>
  What \<^verbatim>\<open>_should_use_fr_error_handler\<close> returns: a route, a boolean, or \<^verbatim>\<open>None\<close>.
\<close>

datatype probe = Route route | Bool bool | Nothing

definition should_use_fr_error_handler :: "api \<Rightarrow> request option \<Rightarrow> exc + probe" where
  "should_use_fr_error_handler a request =
     (case request of
        None \<Rightarrow> Inr (Bool False)
      | Some req \<Rightarrow>
          (case req_app req of
             None \<Rightarrow> Inr (Bool False)
           | Some ap \<Rightarrow>
               (case dummy_router_get (app_router ap) (req_method req) req of
                  Inr r \<Rightarrow> Inr (Route r)
                | Inl e \<Rightarrow>
                    if isinstance e ''InvalidUsage'' then
                      (case try_route_method e req of
                         Inl err \<Rightarrow> Inl err
                       | Inr m \<Rightarrow>
                           (case dummy_router_get (app_router ap) m req of
                              Inl err \<Rightarrow> Inl err
                            | Inr r \<Rightarrow> Inr (Bool (owns_endpoint a (route_name r)))))
                    else if isinstance e ''NotFound'' then Inr (Bool (catch_all_404s a))
                    else Inr Nothing)))"

text \<open>\<^verbatim>\<open>Api._has_fr_route(request)\<close>.\<close>

definition has_fr_route :: "api \<Rightarrow> request option \<Rightarrow> exc + bool" where
  "has_fr_route a request =
     (case should_use_fr_error_handler a request of
        Inl err \<Rightarrow> Inl err
      | Inr (Bool True) \<Rightarrow> Inr True
      | Inr (Bool False) \<Rightarrow> Inr False
      | Inr Nothing \<Rightarrow> Inr False
      | Inr (Route r) \<Rightarrow>
          if route_handler r = None \<or> route_name r = [] then Inr False
          else Inr (owns_endpoint a (route_name r)))"

section \<open>The error handler installed on the application\<close>

record api_error_handler =
  original_handler :: "request option \<Rightarrow> exc \<Rightarrow> exc + response"
  handler_api :: api

text \<open>
  Reading the local variable \<^verbatim>\<open>e\<close>. An \<^verbatim>\<open>except Exception as e\<close> clause deletes
  the name \<^verbatim>\<open>e\<close> when it ends, so a later read finds the variable unbound.
\<close>

definition load_local :: "exc option \<Rightarrow> exc + exc" where
  "load_local v =
     (case v of
        Some e \<Rightarrow> Inr e
      | None \<Rightarrow> Inl (UnboundLocalError ''local variable 'e' referenced before assignment''))"

definition call_original_handler ::
  "api_error_handler \<Rightarrow> request option \<Rightarrow> exc option \<Rightarrow> exc + response" where
  "call_original_handler h request local_e =
     (case load_local local_e of
        Inl err \<Rightarrow> Inl err
      | Inr e \<Rightarrow> original_handler h request e)"

text \<open>
  \<^verbatim>\<open>ApiErrorHandler.response(request, e)\<close>. The \<^verbatim>\<open>except Exception as e: pass\<close>
  clause catches what \<^verbatim>\<open>handle_error\<close> raises when it is an \<^verbatim>\<open>Exception\<close>, and
  leaves \<^verbatim>\<open>e\<close> unbound for the last line.
\<close>

definition response :: "api_error_handler \<Rightarrow> request option \<Rightarrow> exc \<Rightarrow> exc + response" where
  "response h request e =
     (case has_fr_route (handler_api h) request of
        Inl err \<Rightarrow> Inl err
      | Inr True \<Rightarrow>
          (case (case request of
                   None \<Rightarrow> Inl (AttributeError ''app'')
                 | Some req \<Rightarrow> handle_error (handler_api h) req e) of
             Inr resp \<Rightarrow> Inr resp
           | Inl err \<Rightarrow>
               if isinstance err ''Exception''
               then call_original_handler h request None
               else Inl err)
      | Inr False \<Rightarrow> call_original_handler h request (Some e))"

section \<open>The output wrapper\<close>

text \<open>
  What calling a resource gives: a coroutine (whose awaiting gives such a value again), a
  finished \<^verbatim>\<open>HTTPResponse\<close>, a value to unpack, or a raised exception.
\<close>

datatype result = Coroutine result | Http response | Value raw | Raises exc



section \<open>Registration of resources\<close>

text \<open>\<^verbatim>\<open>str(suffix)\<close>: the decimal digits of a natural number.\<close>

definition digit :: "nat \<Rightarrow> char" where
  "digit d = ''0123456789'' ! d"

function str_nat :: "nat \<Rightarrow> string" where
  "str_nat n = (if n < 10 then [digit n] else str_nat (n div 10) @ [digit (n mod 10)])"
  by pat_completeness auto
termination
  by (relation "measure id") auto

declare str_nat.simps [simp del]

text \<open>\<^verbatim>\<open>'{base}_{suffix}'.format(base=endpoint, suffix=suffix)\<close>.\<close>

definition suffixed :: "string \<Rightarrow> nat \<Rightarrow> string" where
  "suffixed base suffix = base @ ''_'' @ str_nat suffix"

text \<open>
  Different numbers have different digits, so only finitely many suffixed names are in a
  finite endpoint set: this is why the \<^verbatim>\<open>while True\<close> loop of
  \<^verbatim>\<open>default_endpoint\<close> ends.
\<close>

lemma digit_inj: "a < 10 \<Longrightarrow> b < 10 \<Longrightarrow> digit a = digit b \<Longrightarrow> a = b"
proof -
  assume a: "a < 10" and b: "b < 10" and e: "digit a = digit b"
  have d: "distinct ''0123456789''" by simp
  have "length ''0123456789'' = 10" by simp
  with a b e d show "a = b"
    unfolding digit_def by (metis nth_eq_iff_index_eq)
qed

lemma str_nat_nonempty: "str_nat n \<noteq> []"
  by (subst str_nat.simps) simp

lemma str_nat_inj: "str_nat n = str_nat m \<Longrightarrow> n = m"
proof (induction n arbitrary: m rule: str_nat.induct)
  case (1 n)
  show ?case
  proof (cases "n < 10")
    case True
    show ?thesis
    proof (cases "m < 10")
      case mt: True
      from "1.prems" True mt have "digit n = digit m"
        by (simp add: str_nat.simps[of n] str_nat.simps[of m])
      with True mt show ?thesis by (rule digit_inj)
    next
      case mf: False
      from "1.prems" True mf have "[digit n] = str_nat (m div 10) @ [digit (m mod 10)]"
        by (simp add: str_nat.simps[of n] str_nat.simps[of m])
      then have "str_nat (m div 10) = []" by simp
      then show ?thesis using str_nat_nonempty by blast
    qed
  next
    case False
    show ?thesis
    proof (cases "m < 10")
      case mt: True
      from "1.prems" False mt have "str_nat (n div 10) @ [digit (n mod 10)] = [digit m]"
        by (simp add: str_nat.simps[of n] str_nat.simps[of m])
      then have "str_nat (n div 10) = []" by simp
      then show ?thesis using str_nat_nonempty by blast
    next
      case mf: False
      from "1.prems" False mf
      have "str_nat (n div 10) @ [digit (n mod 10)] = str_nat (m div 10) @ [digit (m mod 10)]"
        by (simp add: str_nat.simps[of n] str_nat.simps[of m])
      then have q: "str_nat (n div 10) = str_nat (m div 10)"
        and r: "digit (n mod 10) = digit (m mod 10)" by simp_all
      from "1.IH"[OF False q] have q': "n div 10 = m div 10" .
      have "n mod 10 = m mod 10" by (rule digit_inj[OF _ _ r]) simp_all
      with q' show ?thesis by (metis div_mult_mod_eq)
    qed
  qed
qed

lemma suffixed_inj: "inj (suffixed base)"
  by (rule injI) (simp add: suffixed_def str_nat_inj)

lemma finite_suffixes: "finite {k. suffixed base k \<in> set eps}"
proof -
  have "finite (suffixed base -` set eps)"
    by (rule finite_vimageI[OF _ suffixed_inj]) simp
  then show ?thesis by (simp add: vimage_def)
qed

text \<open>
  The \<^verbatim>\<open>while True\<close> loop of \<^verbatim>\<open>Api.default_endpoint\<close>: the first suffix, counting
  up, whose name is not yet an endpoint.
\<close>

function find_suffix :: "string list \<Rightarrow> string \<Rightarrow> nat \<Rightarrow> string" where
  "find_suffix eps base suffix =
     (if suffixed base suffix \<notin> set eps then suffixed base suffix
      else find_suffix eps base (suffix + 1))"
  by pat_completeness auto
termination
proof (relation "measure (\<lambda>(eps, base, suffix). card {k. suffix \<le> k \<and> suffixed base k \<in> set eps})")
  show "wf (measure (\<lambda>(eps, base, suffix). card {k. suffix \<le> k \<and> suffixed base k \<in> set eps}))"
    by simp
next
  fix eps :: "string list" and base :: string and suffix :: nat
  assume "\<not> suffixed base suffix \<notin> set eps"
  then have m: "suffixed base suffix \<in> set eps" by simp
  have fin: "finite {k. suffix \<le> k \<and> suffixed base k \<in> set eps}"
    by (rule finite_subset[OF _ finite_suffixes[of base eps]]) auto
  have "{k. suffix + 1 \<le> k \<and> suffixed base k \<in> set eps}
          \<subset> {k. suffix \<le> k \<and> suffixed base k \<in> set eps}"
  proof -
    have "suffix \<in> {k. suffix \<le> k \<and> suffixed base k \<in> set eps}" using m by simp
    moreover have "suffix \<notin> {k. suffix + 1 \<le> k \<and> suffixed base k \<in> set eps}" by simp
    moreover have "{k. suffix + 1 \<le> k \<and> suffixed base k \<in> set eps}
                     \<subseteq> {k. suffix \<le> k \<and> suffixed base k \<in> set eps}" by auto
    ultimately show ?thesis by blast
  qed
  then have "card {k. suffix + 1 \<le> k \<and> suffixed base k \<in> set eps}
               < card {k. suffix \<le> k \<and> suffixed base k \<in> set eps}"
    by (rule psubset_card_mono[OF fin])
  then show "((eps, base, suffix + 1), (eps, base, suffix))
               \<in> measure (\<lambda>(eps, base, suffix). card {k. suffix \<le> k \<and> suffixed base k \<in> set eps})"
    by simp
qed

declare find_suffix.simps [simp del]

text \<open>
  \<^verbatim>\<open>Api.default_endpoint(resource, namespace)\<close>. The helper \<^verbatim>\<open>camel_to_dash\<close> of
  \<^verbatim>\<open>sanic_restplus/utils.py\<close> is not among the sources and is a parameter; the
  resource is represented by its class name.
\<close>

definition default_endpoint ::
  "(string \<Rightarrow> string) \<Rightarrow> api \<Rightarrow> string \<Rightarrow> namespace \<Rightarrow> string" where
  "default_endpoint camel_to_dash a resource_name ns =
     (let endpoint = camel_to_dash resource_name;
          endpoint' = (if ns_id ns \<noteq> default_namespace a
                       then ns_name ns @ ''_'' @ endpoint else endpoint)
      in if endpoint' \<in> set (endpoints a) then find_suffix (endpoints a) endpoint' 2
         else endpoint')"

text \<open>
  \<^verbatim>\<open>Api.register_resource(namespace, resource, *urls, endpoint=...)\<close>: the effect on
  the instance and the returned endpoint. With an application attached the view is
  registered on the host at once, which changes the host and not the instance; without
  one the registration is kept in \<^verbatim>\<open>self.resources\<close>.
\<close>

definition register_resource ::
  "(string \<Rightarrow> string) \<Rightarrow> api \<Rightarrow> namespace \<Rightarrow> string \<Rightarrow> string list \<Rightarrow> string option
     \<Rightarrow> string \<times> api" where
  "register_resource camel_to_dash a ns resource_name urls endpoint_kwarg =
     (let endpoint =
            (case endpoint_kwarg of
               Some ep \<Rightarrow>
                 if ep \<noteq> [] then ep else default_endpoint camel_to_dash a resource_name ns
             | None \<Rightarrow> default_endpoint camel_to_dash a resource_name ns);
          a' = a\<lparr>endpoints := List.insert endpoint (endpoints a)\<rparr>
      in (endpoint,
          if has_app a then a'
          else a'\<lparr>resources := resources a' @ [(resource_name, urls, endpoint)]\<rparr>))"

section \<open>Several instances in one process\<close>

text \<open>
  The instances of a process, addressed by their position, and the class attribute
  \<^verbatim>\<open>Api.uid_counter\<close> they share. Every instance has its own endpoint set, created
  by its constructor.
\<close>

record process =
  uid_counter :: nat
  apis :: "api list"



section \<open>Statements of the specification\<close>






text \<open>
  A path that matches no registered route: it is no key of the static routes, and no
  pattern of the dynamic routes for its hash or of the always-checked routes matches it.
\<close>

definition no_route_matches :: "router \<Rightarrow> string \<Rightarrow> bool" where
  "no_route_matches rt url =
     (map_of (routes_static rt) url = None
      \<and> list_all (\<lambda>r. \<not> route_pattern r url)
            ((case map_of (routes_dynamic rt) (url_hash url) of None \<Rightarrow> [] | Some rs \<Rightarrow> rs)
             @ routes_always_check rt))"



section \<open>Example configurations\<close>

text \<open>
  Concrete applications, requests, instances and errors on which the theorems below are
  evaluated: an application whose router has a single static route \<^verbatim>\<open>/x\<close> named
  \<^verbatim>\<open>x\<close>, a request with one media type in its \<^verbatim>\<open>Accept\<close> header, the instance
  that the constructor builds, the same instance after it registered the endpoint
  \<^verbatim>\<open>x\<close>, an error handler that raises, a host handler, an asynchronous resource,
  and a process with two instances.
\<close>

definition example_route :: "string list \<Rightarrow> route" where
  "example_route methods =
     \<lparr>route_handler = Some ''view'', route_methods = methods,
      route_pattern = (\<lambda>url. url = ''/x''), route_name = ''x''\<rparr>"

definition example_app :: "string list \<Rightarrow> (string \<times> pyval) list \<Rightarrow> app" where
  "example_app methods config =
     \<lparr>app_router = \<lparr>routes_static = [(''/x'', example_route methods)],
                     routes_dynamic = [], routes_always_check = []\<rparr>,
      app_config = config\<rparr>"

definition example_request :: "string \<Rightarrow> string \<Rightarrow> string \<Rightarrow> app \<Rightarrow> request" where
  "example_request method path accept ap =
     \<lparr>req_method = method, req_path = path, req_accept_mimetypes = [(accept, 1000)],
      req_app = Some ap\<rparr>"

definition example_api :: "string option \<Rightarrow> bool \<Rightarrow> api" where
  "example_api default_mediatype_arg catch_all_404s_arg =
     fst (Api_init 0 example_renderer default_mediatype_arg catch_all_404s_arg False)"

definition example_original_handler :: "request option \<Rightarrow> exc \<Rightarrow> exc + response" where
  "example_original_handler request e = Inr (sanic_text (Rendered ''host'') 500 [])"

definition example_exc :: "string \<Rightarrow> string list \<Rightarrow> int option \<Rightarrow> pyval option \<Rightarrow> exc" where
  "example_exc cls bases code data =
     \<lparr>exc_cls = cls, exc_bases = bases, exc_str = ''bad'', exc_status_code = code,
      exc_message = None, exc_data = data, exc_valid_methods = None\<rparr>"

definition example_error_handler :: "api \<Rightarrow> api_error_handler" where
  "example_error_handler a = \<lparr>original_handler = example_original_handler, handler_api = a\<rparr>"

definition example_owning_api :: "string option \<Rightarrow> api" where
  "example_owning_api default_mediatype_arg =
     snd (register_resource (\<lambda>s. s) (example_api default_mediatype_arg False)
            \<lparr>ns_id = 0, ns_name = ''default''\<rparr> ''X'' [''/x''] (Some ''x''))"

definition example_failing_handler :: handler where
  "example_failing_handler e = Inl (builtin_error ''ValueError'' ''boom'')"




text \<open>The definitions that evaluating these examples unfolds.\<close>

lemmas negotiation_defs =
  example_api_def example_request_def example_app_def example_route_def Api_init_def
  make_response_def best_match_accept_mimetype_def mediatypes_def mimetype_matches_def
  sub_type_def main_type_def py_or_def example_renderer_def sanic_text_def

lemmas error_defs =
  handle_error_def resolve_error_def render_error_def HEADERS_BLACKLIST_def
  COMMON_STATUS_CODES_def ALL_STATUS_CODES_def status_phrase_def isinstance_def
  example_exc_def error_404_help_def first_supported_mediatype_def unauthorized_def
  help_on_404_def

lemmas router_defs =
  has_fr_route_def should_use_fr_error_handler_def dummy_router_get_def
  try_route_method_def method_not_supported_def InvalidUsage_def NotFound_def
  AttributeError_def NotImplementedError_def UnboundLocalError_def builtin_error_def
  owns_endpoint_def url_hash_def response_def call_original_handler_def load_local_def
  example_error_handler_def example_original_handler_def example_owning_api_def
  register_resource_def errorhandler_def example_failing_handler_def Let_def


section \<open>Content negotiation: the fallback to the default media type\<close>




section \<open>Resolution of an error: one rule, in order\<close>


section \<open>From the resolved error to the response\<close>

text \<open>
  Outside the 404 help branch, \<^verbatim>\<open>handle_error\<close> renders the \<^verbatim>\<open>data\<close> attribute of
  the error if it has one, and otherwise the resolved body with its \<^verbatim>\<open>message\<close>
  entry (completed from \<^verbatim>\<open>str(e)\<close> when the body has none).
\<close>

lemma render_error_not_401:
  "code \<noteq> 401 \<Longrightarrow> render_error a req data code hdrs fb
     = make_response a req data code (AList.delete ''Content-Length'' hdrs) fb"
  by (simp add: render_error_def HEADERS_BLACKLIST_def split: sum.splits)

lemma handle_error_after_resolution:
  assumes "req_app req = Some ap"
    and "resolve_error a e = Inr (PDict d, code, hdrs)"
    and "\<not> (code = 404 \<and> error_404_help ap)"
  shows "handle_error a req e =
     render_error a req
       (case exc_data e of
          Some v \<Rightarrow> v
        | None \<Rightarrow> PDict (AList.update ''message''
                          (case map_of d ''message'' of Some v \<Rightarrow> v | None \<Rightarrow> PStr (exc_str e)) d))
       code hdrs
       (if code = 406 \<and> default_mediatype a = None then Some (first_supported_mediatype a)
        else None)"
  using assms by (auto simp add: handle_error_def Let_def)

text \<open>
  Claim C8, as the code has it. For every raised exception whose type has no entry in the
  handler registry, that is not a framework HTTP error, with no default handler
  registered, \<^verbatim>\<open>handle_error\<close> gives status 500 and the body
  \<^verbatim>\<open>{"message": "Internal Server Error"}\<close> to \<^verbatim>\<open>make_response\<close>, unless the
  exception carries a \<^verbatim>\<open>data\<close> attribute, whose value is then the body.
\<close>

theorem handle_error_generic_500:
  assumes "req_app req = Some ap"
    and "map_of (error_handlers a) (exc_cls e) = None"
    and "\<not> isinstance e ''SanicException''"
    and "default_error_handler a = None"
  shows "handle_error a req e =
     make_response a req
       (case exc_data e of
          Some v \<Rightarrow> v
        | None \<Rightarrow> PDict [(''message'', PStr ''Internal Server Error'')])
       500 [] None"
proof -
  have r: "resolve_error a e = Inr (PDict [(''message'', PStr ''Internal Server Error'')], 500, [])"
    using assms by (simp add: resolve_error_def COMMON_STATUS_CODES_def)
  show ?thesis
    using handle_error_after_resolution [OF assms(1) r]
    by (simp add: render_error_not_401 split: option.splits)
qed

theorem handle_error_generic_500_witness:
  "handle_error (example_api (Some ''application/json'') False)
     (example_request ''GET'' ''/x'' ''application/json'' (example_app [''GET''] []))
     (example_exc ''MyError'' [''Exception''] None None)
   = Inr \<lparr>resp_status = 500, resp_headers = [(''Content-Type'', ''application/json'')],
          resp_body = Str_of (PDict [(''message'', PStr ''Internal Server Error'')])\<rparr>"
proof -
  have "handle_error (example_api (Some ''application/json'') False)
     (example_request ''GET'' ''/x'' ''application/json'' (example_app [''GET''] []))
     (example_exc ''MyError'' [''Exception''] None None)
    = make_response (example_api (Some ''application/json'') False)
       (example_request ''GET'' ''/x'' ''application/json'' (example_app [''GET''] []))
       (case exc_data (example_exc ''MyError'' [''Exception''] None None) of
          Some v \<Rightarrow> v
        | None \<Rightarrow> PDict [(''message'', PStr ''Internal Server Error'')])
       500 [] None"
    by (rule handle_error_generic_500 [where ap = "example_app [''GET''] []"])
       (simp_all add: example_request_def example_api_def Api_init_def example_exc_def
          isinstance_def)
  then show ?thesis
    by (simp add: negotiation_defs example_exc_def)
qed

text \<open>
  Claim C8 as stated fails for an exception with a \<^verbatim>\<open>data\<close> attribute: its type is
  not registered, it is no framework HTTP error, no default handler is registered, and
  the body of the response is the value of the attribute.
\<close>

theorem handle_error_data_attribute_counterexample:
  "map_of (error_handlers (example_api (Some ''application/json'') False)) ''MyError'' = None
   \<and> \<not> isinstance (example_exc ''MyError'' [''Exception''] None
                      (Some (PDict [(''errors'', PStr ''bad'')]))) ''SanicException''
   \<and> default_error_handler (example_api (Some ''application/json'') False) = None
   \<and> handle_error (example_api (Some ''application/json'') False)
        (example_request ''GET'' ''/x'' ''application/json'' (example_app [''GET''] []))
        (example_exc ''MyError'' [''Exception''] None (Some (PDict [(''errors'', PStr ''bad'')])))
      = Inr \<lparr>resp_status = 500, resp_headers = [(''Content-Type'', ''application/json'')],
             resp_body = Str_of (PDict [(''errors'', PStr ''bad'')])\<rparr>
   \<and> PDict [(''errors'', PStr ''bad'')] \<noteq> PDict [(''message'', PStr ''Internal Server Error'')]"
  by (simp add: negotiation_defs error_defs)




section \<open>The 406 response cannot fail negotiation again\<close>







section \<open>Which instance owns an endpoint\<close>





section \<open>Unmatched routes\<close>

lemma scan_routes_no_match:
  "list_all (\<lambda>r. \<not> route_pattern r url) rs \<Longrightarrow>
   \<exists>cur'. scan_routes rs url method route_found cur = Exhausted route_found cur'"
  by (induction rs arbitrary: cur) auto

lemma dummy_router_get_not_found:
  assumes "no_route_matches rt (req_path req)"
  shows "dummy_router_get rt method req
           = Inl (NotFound (''Requested URL '' @ req_path req @ '' not found''))"
proof -
  let ?url = "req_path req"
  let ?dyn = "case map_of (routes_dynamic rt) (url_hash ?url) of None \<Rightarrow> [] | Some rs \<Rightarrow> rs"
  from assms have st: "map_of (routes_static rt) ?url = None"
    and d: "list_all (\<lambda>r. \<not> route_pattern r ?url) ?dyn"
    and ac: "list_all (\<lambda>r. \<not> route_pattern r ?url) (routes_always_check rt)"
    by (simp_all add: no_route_matches_def)
  from scan_routes_no_match [OF d] obtain c1
    where s1: "scan_routes ?dyn ?url method False None = Exhausted False c1" by blast
  from scan_routes_no_match [OF ac] obtain c2
    where s2: "scan_routes (routes_always_check rt) ?url method False c1 = Exhausted False c2"
    by blast
  show ?thesis
    by (simp add: dummy_router_get_def Let_def st s1 s2)
qed

lemma isinstance_NotFound [simp]:
  "isinstance (NotFound msg) ''NotFound''" "\<not> isinstance (NotFound msg) ''InvalidUsage''"
  "isinstance (NotFound msg) ''SanicException''"
  by (simp_all add: isinstance_def NotFound_def)

lemma has_fr_route_unmatched:
  assumes "req_app req = Some ap" and "no_route_matches (app_router ap) (req_path req)"
  shows "has_fr_route a (Some req) = Inr (catch_all_404s a)"
  using assms
  by (cases "catch_all_404s a")
     (simp_all add: has_fr_route_def should_use_fr_error_handler_def dummy_router_get_not_found)

lemma resolve_error_NotFound:
  "map_of (error_handlers a) ''NotFound'' = None \<Longrightarrow>
   resolve_error a (NotFound msg) = Inr (PDict [(''message'', PStr ''Not Found'')], 404, [])"
  by (simp add: resolve_error_def status_phrase_def COMMON_STATUS_CODES_def NotFound_def
        isinstance_def)

text \<open>
  Claim C5, as the code has it. For a request whose path matches no registered route,
  \<^verbatim>\<open>_has_fr_route\<close> answers with the \<^verbatim>\<open>catch_all_404s\<close> flag. With the flag
  false the original handler of the host produces the response. With the flag true, the
  404 help disabled in the configuration (\<^verbatim>\<open>ERROR_404_HELP\<close> false), no handler
  registered for \<^verbatim>\<open>NotFound\<close> and a successful rendering, the response is the one
  rendered from status 404 and the body \<^verbatim>\<open>{"message": "Not Found"}\<close>.
\<close>

theorem unmatched_route_catch_all_404s:
  assumes "req_app req = Some ap"
    and "no_route_matches (app_router ap) (req_path req)"
    and "handler_api h = a"
  shows "has_fr_route a (Some req) = Inr (catch_all_404s a)
   \<and> (\<not> catch_all_404s a \<longrightarrow> response h (Some req) e = original_handler h (Some req) e)
   \<and> (catch_all_404s a \<and> \<not> error_404_help ap
        \<and> map_of (error_handlers a) ''NotFound'' = None
        \<and> make_response a req (PDict [(''message'', PStr ''Not Found'')]) 404 [] None = Inr resp
      \<longrightarrow> response h (Some req) (NotFound msg) = Inr resp)"
proof -
  have owned: "has_fr_route a (Some req) = Inr (catch_all_404s a)"
    using assms(1,2) by (rule has_fr_route_unmatched)
  have declined: "\<not> catch_all_404s a \<longrightarrow> response h (Some req) e = original_handler h (Some req) e"
    using owned assms(3)
    by (simp add: response_def call_original_handler_def load_local_def)
  have claimed: "catch_all_404s a \<and> \<not> error_404_help ap
        \<and> map_of (error_handlers a) ''NotFound'' = None
        \<and> make_response a req (PDict [(''message'', PStr ''Not Found'')]) 404 [] None = Inr resp
      \<longrightarrow> response h (Some req) (NotFound msg) = Inr resp"
  proof (intro impI, elim conjE)
    assume c: "catch_all_404s a" and nh: "\<not> error_404_help ap"
      and nr: "map_of (error_handlers a) ''NotFound'' = None"
      and mr: "make_response a req (PDict [(''message'', PStr ''Not Found'')]) 404 [] None = Inr resp"
    have n: "\<not> ((404::int) = 404 \<and> error_404_help ap)" using nh by simp
    have "handle_error a req (NotFound msg) = Inr resp"
      using handle_error_after_resolution [OF assms(1) resolve_error_NotFound [OF nr] n] mr
      by (simp add: render_error_not_401) (simp add: NotFound_def)
    then show "response h (Some req) (NotFound msg) = Inr resp"
      using owned c assms(3) by (simp add: response_def)
  qed
  from owned declined claimed show ?thesis by blast
qed

theorem unmatched_route_catch_all_404s_witness:
  "response (example_error_handler (example_api (Some ''application/json'') False))
     (Some (example_request ''GET'' ''/nope'' ''application/json'' (example_app [''GET''] [])))
     (NotFound ''Requested URL /nope not found'')
   = example_original_handler
       (Some (example_request ''GET'' ''/nope'' ''application/json'' (example_app [''GET''] [])))
       (NotFound ''Requested URL /nope not found'')
   \<and> response (example_error_handler (example_api (Some ''application/json'') True))
       (Some (example_request ''GET'' ''/nope'' ''application/json''
                (example_app [''GET''] [(''ERROR_404_HELP'', PBool False)])))
       (NotFound ''Requested URL /nope not found'')
     = Inr \<lparr>resp_status = 404, resp_headers = [(''Content-Type'', ''application/json'')],
            resp_body = Str_of (PDict [(''message'', PStr ''Not Found'')])\<rparr>"
proof -
  let ?e = "NotFound ''Requested URL /nope not found''"
  let ?ap1 = "example_app [''GET''] []"
  let ?ap2 = "example_app [''GET''] [(''ERROR_404_HELP'', PBool False)]"
  let ?r1 = "example_request ''GET'' ''/nope'' ''application/json'' ?ap1"
  let ?r2 = "example_request ''GET'' ''/nope'' ''application/json'' ?ap2"
  let ?a1 = "example_api (Some ''application/json'') False"
  let ?a2 = "example_api (Some ''application/json'') True"
  let ?resp = "\<lparr>resp_status = 404, resp_headers = [(''Content-Type'', ''application/json'')],
            resp_body = Str_of (PDict [(''message'', PStr ''Not Found'')])\<rparr>"
  have q1: "req_app ?r1 = Some ?ap1" and q2: "req_app ?r2 = Some ?ap2"
    by (simp_all add: example_request_def)
  have n1: "no_route_matches (app_router ?ap1) (req_path ?r1)"
    and n2: "no_route_matches (app_router ?ap2) (req_path ?r2)"
    by (simp_all add: no_route_matches_def example_request_def example_app_def)
  have h1: "handler_api (example_error_handler ?a1) = ?a1"
    and h2: "handler_api (example_error_handler ?a2) = ?a2"
    by (simp_all add: example_error_handler_def)
  have f1: "\<not> catch_all_404s ?a1" and f2: "catch_all_404s ?a2"
    by (simp_all add: example_api_def Api_init_def)
  have c2: "\<not> error_404_help ?ap2" by (simp add: error_404_help_def example_app_def)
  have m2: "map_of (error_handlers ?a2) ''NotFound'' = None"
    by (simp add: example_api_def Api_init_def)
  have mr: "make_response ?a2 ?r2 (PDict [(''message'', PStr ''Not Found'')]) 404 [] None = Inr ?resp"
    by (simp add: negotiation_defs)
  show ?thesis
    using unmatched_route_catch_all_404s [OF q1 n1 h1, of ?e ?resp "''Requested URL /nope not found''"]
      unmatched_route_catch_all_404s [OF q2 n2 h2, of ?e ?resp "''Requested URL /nope not found''"]
      f1 f2 c2 m2 mr
    by (simp add: example_error_handler_def)
qed

text \<open>
  Claim C5 as stated fails under the default configuration: the instance claims the
  error, and \<^verbatim>\<open>handle_error\<close> then raises \<^verbatim>\<open>NotImplementedError\<close> from
  \<^verbatim>\<open>_help_on_404\<close> instead of producing a 404 response.
\<close>

theorem unmatched_route_404_help_counterexample:
  "catch_all_404s (example_api (Some ''application/json'') True)
   \<and> has_fr_route (example_api (Some ''application/json'') True)
       (Some (example_request ''GET'' ''/nope'' ''application/json'' (example_app [''GET''] [])))
     = Inr True
   \<and> handle_error (example_api (Some ''application/json'') True)
       (example_request ''GET'' ''/nope'' ''application/json'' (example_app [''GET''] []))
       (NotFound ''Requested URL /nope not found'')
     = Inl (NotImplementedError ''Help on 404 is not yet implemented for Sanic-RestPlus'')"
  by (simp add: negotiation_defs error_defs router_defs)

section \<open>Method not allowed: probing with another method\<close>





section \<open>A handler that raises while the error response is built\<close>

text \<open>
  Claim C4, evaluated where the code breaks it. The instance owns the route \<^verbatim>\<open>/x\<close>
  and has a handler for \<^verbatim>\<open>MyError\<close> that raises \<^verbatim>\<open>ValueError\<close>. The
  \<^verbatim>\<open>except Exception as e\<close> clause swallows the \<^verbatim>\<open>ValueError\<close> and unbinds
  \<^verbatim>\<open>e\<close>, so the call of the original handler raises \<^verbatim>\<open>UnboundLocalError\<close>
  instead of producing the host's response.
\<close>

theorem response_swallowed_error_unbound_local:
  "has_fr_route (errorhandler (Some ''MyError'') example_failing_handler
                   (example_owning_api (Some ''application/json'')))
     (Some (example_request ''GET'' ''/x'' ''application/json'' (example_app [''GET''] [])))
   = Inr True
   \<and> handle_error (errorhandler (Some ''MyError'') example_failing_handler
                     (example_owning_api (Some ''application/json'')))
       (example_request ''GET'' ''/x'' ''application/json'' (example_app [''GET''] []))
       (example_exc ''MyError'' [''Exception''] None None)
     = Inl (builtin_error ''ValueError'' ''boom'')
   \<and> response (example_error_handler
                 (errorhandler (Some ''MyError'') example_failing_handler
                    (example_owning_api (Some ''application/json''))))
       (Some (example_request ''GET'' ''/x'' ''application/json'' (example_app [''GET''] [])))
       (example_exc ''MyError'' [''Exception''] None None)
     = Inl (UnboundLocalError ''local variable 'e' referenced before assignment'')
   \<and> original_handler (example_error_handler
                 (errorhandler (Some ''MyError'') example_failing_handler
                    (example_owning_api (Some ''application/json''))))
       (Some (example_request ''GET'' ''/x'' ''application/json'' (example_app [''GET''] [])))
       (example_exc ''MyError'' [''Exception''] None None)
     = Inr (sanic_text (Rendered ''host'') 500 [])"
  by (simp add: negotiation_defs error_defs router_defs)

section \<open>The output wrapper: status code and headers\<close>








end
